theory Spec2Isabelle
  imports Complex_Main "HOL-Library.Monad_Syntax"
begin

section \<open>GLSL values: vectors and checked arithmetic\<close>

text \<open>
  The shaders of \<^verbatim>\<open>src/js/camera.js\<close> compute on \<^verbatim>\<open>float\<close>, \<^verbatim>\<open>vec2\<close>,
  \<^verbatim>\<open>vec3\<close> and \<^verbatim>\<open>vec4\<close>.  Floats are modelled by exact reals: rounding and overflow
  are outside the model.  What is kept is the one way in which a GLSL expression can
  leave the finite numbers even over exact arithmetic: a division whose divisor is zero
  (hence also \<^verbatim>\<open>normalize\<close> of the zero vector) and \<^verbatim>\<open>pow\<close> of a negative base.
  Such a computation returns \<open>None\<close>; a finite result is \<open>Some\<close>.  Two places of the
  shaders take such a value through a \<^verbatim>\<open>clamp\<close> before they use it, and are modelled
  for what the clamp leaves: the half vector (see \<open>half_vector\<close>) and the quotient
  inside \<^verbatim>\<open>smoothstep\<close>.
\<close>

datatype vec3 = Vec3 (vx: real) (vy: real) (vz: real)

datatype vec4 = Vec4 (wx: real) (wy: real) (wz: real) (ww: real)

type_synonym vec2 = "real \<times> real"

definition fdiv :: "real \<Rightarrow> real \<Rightarrow> real option" where
  "fdiv a b = (if b = 0 then None else Some (a / b))"

definition vec3_of :: "real \<Rightarrow> vec3" where
  "vec3_of s = Vec3 s s s"

fun vadd :: "vec3 \<Rightarrow> vec3 \<Rightarrow> vec3" where
  "vadd (Vec3 a b c) (Vec3 d e f) = Vec3 (a + d) (b + e) (c + f)"

fun vsub :: "vec3 \<Rightarrow> vec3 \<Rightarrow> vec3" where
  "vsub (Vec3 a b c) (Vec3 d e f) = Vec3 (a - d) (b - e) (c - f)"

fun vmul :: "vec3 \<Rightarrow> vec3 \<Rightarrow> vec3" where
  "vmul (Vec3 a b c) (Vec3 d e f) = Vec3 (a * d) (b * e) (c * f)"

fun vneg :: "vec3 \<Rightarrow> vec3" where
  "vneg (Vec3 a b c) = Vec3 (- a) (- b) (- c)"

fun vscale :: "real \<Rightarrow> vec3 \<Rightarrow> vec3" where
  "vscale s (Vec3 a b c) = Vec3 (s * a) (s * b) (s * c)"

fun vdivs :: "vec3 \<Rightarrow> real \<Rightarrow> vec3 option" where
  "vdivs (Vec3 a b c) s = (if s = 0 then None else Some (Vec3 (a / s) (b / s) (c / s)))"

fun dot :: "vec3 \<Rightarrow> vec3 \<Rightarrow> real" where
  "dot (Vec3 a b c) (Vec3 d e f) = a * d + b * e + c * f"

fun cross :: "vec3 \<Rightarrow> vec3 \<Rightarrow> vec3" where
  "cross (Vec3 a b c) (Vec3 d e f) = Vec3 (b * f - c * e) (c * d - a * f) (a * e - b * d)"

definition length3 :: "vec3 \<Rightarrow> real" where
  "length3 v = sqrt (dot v v)"

definition normalize3 :: "vec3 \<Rightarrow> vec3 option" where
  "normalize3 v = vdivs v (length3 v)"

definition clamp :: "real \<Rightarrow> real \<Rightarrow> real \<Rightarrow> real" where
  "clamp x lo hi = min (max x lo) hi"

definition mix :: "vec3 \<Rightarrow> vec3 \<Rightarrow> real \<Rightarrow> vec3" where
  "mix a b t = vadd (vscale (1 - t) a) (vscale t b)"

definition glsl_pow5 :: "real \<Rightarrow> real option" where
  "glsl_pow5 x = (if x < 0 then None else Some (x ^ 5))"

text \<open>
  GLSL defines \<^verbatim>\<open>smoothstep(edge0, edge1, x)\<close> by
  \<^verbatim>\<open>t = clamp((x - edge0) / (edge1 - edge0), 0.0, 1.0); return t * t * (3.0 - 2.0 * t);\<close>.
  When \<open>edge0 = edge1\<close> the quotient is an infinity for \<open>x \<noteq> edge0\<close>, which the clamp
  takes to 0 or 1, so the function is a step there; at \<open>x = edge0\<close> the quotient is
  \<open>0/0\<close> and the result has no value.
\<close>

definition smoothstep :: "real \<Rightarrow> real \<Rightarrow> real \<Rightarrow> real option" where
  "smoothstep edge0 edge1 x =
     (if edge1 - edge0 = 0
      then (if x - edge0 < 0 then Some 0 else if 0 < x - edge0 then Some 1 else None)
      else (let t = clamp ((x - edge0) / (edge1 - edge0)) 0 1
            in Some (t * t * (3 - 2 * t))))"

definition nonneg3 :: "vec3 \<Rightarrow> bool" where
  "nonneg3 v \<longleftrightarrow> 0 \<le> vx v \<and> 0 \<le> vy v \<and> 0 \<le> vz v"

definition unit3 :: "vec3 \<Rightarrow> bool" where
  "unit3 v \<longleftrightarrow> dot v v = 1"

definition in01 :: "real \<Rightarrow> bool" where
  "in01 x \<longleftrightarrow> 0 \<le> x \<and> x \<le> 1"

definition in01_3 :: "vec3 \<Rightarrow> bool" where
  "in01_3 v \<longleftrightarrow> in01 (vx v) \<and> in01 (vy v) \<and> in01 (vz v)"

section \<open>Uniforms\<close>

text \<open>
  Both fragment shaders read the same material uniforms.  The light uniforms of the
  second shader are called \<^verbatim>\<open>uLightPosition\<close> and \<^verbatim>\<open>uLightDirection\<close>; the record
  below carries them under the names of the first shader.
\<close>

record material =
  uAlbedo :: vec3
  uMetallic :: real
  uRoughness :: real

record light =
  uLightType :: int
  uLightPos :: vec3
  uLightDir :: vec3
  uLightColor :: vec3
  uLightIntensity :: real
  uSpotAngle :: real
  uSpotSoftness :: real
  uAreaSize :: vec2

definition valid_material :: "material \<Rightarrow> bool" where
  "valid_material m \<longleftrightarrow> in01_3 (uAlbedo m) \<and> in01 (uMetallic m) \<and> in01 (uRoughness m)"

section \<open>Main path: \<^verbatim>\<open>fragmentShader\<close>\<close>

definition D_GGX :: "real \<Rightarrow> real \<Rightarrow> real option" where
  "D_GGX NdotH alpha =
     (let a2 = alpha * alpha;
          denom = (NdotH * NdotH) * (a2 - 1) + 1;
          denom = 3.14159265 * denom * denom
      in fdiv a2 (max 0.0001 denom))"

definition G_SchlickGGX :: "real \<Rightarrow> real \<Rightarrow> real option" where
  "G_SchlickGGX NdotV k = fdiv NdotV (NdotV * (1 - k) + k)"

definition G_Smith :: "real \<Rightarrow> real \<Rightarrow> real \<Rightarrow> real option" where
  "G_Smith NdotV NdotL roughness =
     (let r = roughness + 1;
          k = (r * r) / 8
      in do {
        gv \<leftarrow> G_SchlickGGX NdotV k;
        gl \<leftarrow> G_SchlickGGX NdotL k;
        Some (gv * gl)
      })"

definition fresnelSchlick :: "real \<Rightarrow> vec3 \<Rightarrow> vec3 option" where
  "fresnelSchlick cosTheta F0 = do {
     p \<leftarrow> glsl_pow5 (1 - cosTheta);
     Some (vadd F0 (vscale p (vsub (vec3_of 1) F0)))
   }"

text \<open>Three intermediate values of \<^verbatim>\<open>evaluateBRDF\<close>, named so that theorems can refer to them.\<close>

definition brdf_alpha :: "material \<Rightarrow> real" where
  \<comment> \<open>\<^verbatim>\<open>float alpha = max(0.001, uRoughness * uRoughness);\<close>\<close>
  "brdf_alpha m = max 0.001 (uRoughness m * uRoughness m)"

definition brdf_G :: "material \<Rightarrow> real \<Rightarrow> real \<Rightarrow> real option" where
  \<comment> \<open>\<^verbatim>\<open>float G = G_Smith(NdotV, NdotL, alpha);\<close>\<close>
  "brdf_G m NdotV NdotL = G_Smith NdotV NdotL (brdf_alpha m)"

definition diffuse_kD :: "material \<Rightarrow> vec3 \<Rightarrow> vec3" where
  \<comment> \<open>\<^verbatim>\<open>vec3 kD = (vec3(1.0) - kS) * (1.0 - uMetallic);\<close>, the same line in both shaders\<close>
  "diffuse_kD m kS = vscale (1 - uMetallic m) (vsub (vec3_of 1) kS)"

text \<open>
  \<^verbatim>\<open>vec3 H = normalize(V + L);\<close> in both shaders.  \<open>H\<close> is used only inside
  \<^verbatim>\<open>clamp(dot(., H), 0.0, 1.0)\<close> (second shader: \<^verbatim>\<open>max(dot(., H), 0.0)\<close>), so
  whatever the GPU yields for the normalised zero vector when \<open>V = - L\<close>, the shader goes
  on with numbers in range.  The model takes that vector as the parameter \<open>H0\<close>, and
  every theorem about the shaders holds for every \<open>H0\<close>.
\<close>

definition half_vector :: "vec3 \<Rightarrow> vec3 \<Rightarrow> vec3 \<Rightarrow> vec3" where
  "half_vector H0 V L = (case normalize3 (vadd V L) of Some H \<Rightarrow> H | None \<Rightarrow> H0)"

definition evaluateBRDF ::
  "material \<Rightarrow> vec3 \<Rightarrow> vec3 \<Rightarrow> vec3 \<Rightarrow> vec3 \<Rightarrow> vec3 \<Rightarrow> vec3 option" where
  "evaluateBRDF m H0 N V L radiance = do {
     let H = half_vector H0 V L;
     let NdotL = clamp (dot N L) 0 1;
     let NdotV = clamp (dot N V) 0 1;
     let NdotH = clamp (dot N H) 0 1;
     let VdotH = clamp (dot V H) 0 1;
     let alpha = brdf_alpha m;
     D \<leftarrow> D_GGX NdotH alpha;
     G \<leftarrow> brdf_G m NdotV NdotL;
     let F0 = mix (vec3_of 0.04) (uAlbedo m) (uMetallic m);
     F \<leftarrow> fresnelSchlick VdotH F0;
     let numerator = vscale (D * G) F;
     let denom = max 0.001 (4 * NdotV * NdotL);
     specular \<leftarrow> vdivs numerator denom;
     let kS = F;
     let kD = diffuse_kD m kS;
     diffuse \<leftarrow> vdivs (vmul kD (uAlbedo m)) 3.14159265;
     Some (vscale NdotL (vmul (vadd diffuse specular) radiance))
   }"

definition spotAttenuation :: "light \<Rightarrow> vec3 \<Rightarrow> vec3 \<Rightarrow> real option" where
  "spotAttenuation lt L dir = do {
     nd \<leftarrow> normalize3 (vneg dir);
     let cosTheta = dot nd L;
     let edge = uSpotAngle lt;
     let softness = uSpotSoftness lt;
     smoothstep edge (edge + softness) cosTheta
   }"

definition basisFromDir :: "vec3 \<Rightarrow> (vec3 \<times> vec3) option" where
  "basisFromDir n =
     (let up = (if \<bar>vy n\<bar> < 0.999 then Vec3 0 1 0 else Vec3 1 0 0)
      in do {
        t \<leftarrow> normalize3 (cross up n);
        let b = cross n t;
        Some (t, b)
      })"

definition gridSize :: nat where
  "gridSize = 8"

text \<open>
  The body of the inner loop of the area branch of \<^verbatim>\<open>computeLighting\<close>: it takes the
  accumulator \<^verbatim>\<open>result\<close> and returns it updated.
\<close>

definition area_lightNormal :: "light \<Rightarrow> vec3 option" where
  \<comment> \<open>\<^verbatim>\<open>vec3 lightNormal = normalize(-uLightDir);\<close>\<close>
  "area_lightNormal lt = normalize3 (vneg (uLightDir lt))"

definition area_sample ::
  "material \<Rightarrow> vec3 \<Rightarrow> light \<Rightarrow> vec3 \<Rightarrow> vec3 \<Rightarrow> vec3 \<Rightarrow> vec3 \<Rightarrow> vec3 \<Rightarrow> nat \<Rightarrow> nat \<Rightarrow> vec3 \<Rightarrow> vec3 option" where
  "area_sample m H0 lt vWorldPos N V t b ix iy result =
     (let halfSize = (fst (uAreaSize lt) * 0.5, snd (uAreaSize lt) * 0.5);
          u = (real ix / real (gridSize - 1)) * 2 - 1;
          v = (real iy / real (gridSize - 1)) * 2 - 1;
          samplePos = vadd (vadd (uLightPos lt) (vscale (u * fst halfSize) t))
                           (vscale (v * snd halfSize) b);
          lightVec = vsub samplePos vWorldPos;
          dist = max 0.001 (length3 lightVec)
      in do {
        L \<leftarrow> vdivs lightVec dist;
        lightNormal \<leftarrow> area_lightNormal lt;
        let cosTheta = dot lightNormal (vneg L);
        if cosTheta > 0 then do {
          attenuation \<leftarrow> fdiv cosTheta (dist * dist);
          c \<leftarrow> evaluateBRDF m H0 N V L
                 (vscale attenuation (vscale (uLightIntensity lt) (uLightColor lt)));
          Some (vadd result c)
        } else Some result
      })"

function area_loop_y ::
  "material \<Rightarrow> vec3 \<Rightarrow> light \<Rightarrow> vec3 \<Rightarrow> vec3 \<Rightarrow> vec3 \<Rightarrow> vec3 \<Rightarrow> vec3 \<Rightarrow> nat \<Rightarrow> nat \<Rightarrow> vec3 \<Rightarrow> vec3 option" where
  "area_loop_y m H0 lt vWorldPos N V t b ix iy result =
     (if iy < gridSize then do {
        r \<leftarrow> area_sample m H0 lt vWorldPos N V t b ix iy result;
        area_loop_y m H0 lt vWorldPos N V t b ix (iy + 1) r
      } else Some result)"
  by pat_completeness auto
termination
  by (relation "measure (\<lambda>(m, H0, lt, p, N, V, t, b, ix, iy, r). gridSize - iy)") auto

declare area_loop_y.simps [simp del]

function area_loop_x ::
  "material \<Rightarrow> vec3 \<Rightarrow> light \<Rightarrow> vec3 \<Rightarrow> vec3 \<Rightarrow> vec3 \<Rightarrow> vec3 \<Rightarrow> vec3 \<Rightarrow> nat \<Rightarrow> vec3 \<Rightarrow> vec3 option" where
  "area_loop_x m H0 lt vWorldPos N V t b ix result =
     (if ix < gridSize then do {
        r \<leftarrow> area_loop_y m H0 lt vWorldPos N V t b ix 0 result;
        area_loop_x m H0 lt vWorldPos N V t b (ix + 1) r
      } else Some result)"
  by pat_completeness auto
termination
  by (relation "measure (\<lambda>(m, H0, lt, p, N, V, t, b, ix, r). gridSize - ix)") auto

declare area_loop_x.simps [simp del]

text \<open>
  \<^verbatim>\<open>computeLighting\<close> up to the ambient term: the value of \<^verbatim>\<open>result\<close> after the
  dispatch on \<^verbatim>\<open>uLightType\<close>.
\<close>

definition computeLighting_result ::
  "material \<Rightarrow> vec3 \<Rightarrow> light \<Rightarrow> vec3 \<Rightarrow> vec3 \<Rightarrow> vec3 \<Rightarrow> vec3 option" where
  "computeLighting_result m H0 lt vWorldPos N V =
     (let result = vec3_of 0 in
      if uLightType lt = 0 then do {
        let lightVec = vsub (uLightPos lt) vWorldPos;
        let dist = max 0.001 (length3 lightVec);
        L \<leftarrow> vdivs lightVec dist;
        attenuation \<leftarrow> fdiv 1 (dist * dist);
        c \<leftarrow> evaluateBRDF m H0 N V L
               (vscale attenuation (vscale (uLightIntensity lt) (uLightColor lt)));
        Some (vadd result c)
      } else if uLightType lt = 1 then do {
        L \<leftarrow> normalize3 (vneg (uLightDir lt));
        c \<leftarrow> evaluateBRDF m H0 N V L (vscale (uLightIntensity lt) (uLightColor lt));
        Some (vadd result c)
      } else if uLightType lt = 2 then do {
        let lightVec = vsub (uLightPos lt) vWorldPos;
        let dist = max 0.001 (length3 lightVec);
        L \<leftarrow> vdivs lightVec dist;
        spot \<leftarrow> spotAttenuation lt L (uLightDir lt);
        inv \<leftarrow> fdiv 1 (dist * dist);
        let attenuation = spot * inv;
        c \<leftarrow> evaluateBRDF m H0 N V L
               (vscale attenuation (vscale (uLightIntensity lt) (uLightColor lt)));
        Some (vadd result c)
      } else do {
        n \<leftarrow> normalize3 (vneg (uLightDir lt));
        (t, b) \<leftarrow> basisFromDir n;
        r \<leftarrow> area_loop_x m H0 lt vWorldPos N V t b 0 result;
        vdivs r (real (gridSize * gridSize))
      })"

definition computeLighting ::
  "material \<Rightarrow> vec3 \<Rightarrow> light \<Rightarrow> vec3 \<Rightarrow> vec3 \<Rightarrow> vec3 \<Rightarrow> vec3 option" where
  "computeLighting m H0 lt vWorldPos N V = do {
     result \<leftarrow> computeLighting_result m H0 lt vWorldPos N V;
     let ambient = vscale 0.03 (uAlbedo m);
     Some (vadd ambient result)
   }"

section \<open>Second path: \<^verbatim>\<open>fragmentShaderSource\<close>\<close>

definition PI :: real where
  "PI = 3.14159265359"

definition fresnelSchlick2 :: "real \<Rightarrow> vec3 \<Rightarrow> vec3 option" where
  \<comment> \<open>\<^verbatim>\<open>fresnelSchlick\<close> of the second shader, which clamps the base of the power\<close>
  "fresnelSchlick2 cosTheta F0 = do {
     p \<leftarrow> glsl_pow5 (clamp (1 - cosTheta) 0 1);
     Some (vadd F0 (vscale p (vsub (vec3_of 1) F0)))
   }"

definition distributionGGX_a :: "real \<Rightarrow> real" where
  \<comment> \<open>\<^verbatim>\<open>float a = roughness * roughness;\<close>\<close>
  "distributionGGX_a roughness = roughness * roughness"

definition distributionGGX :: "vec3 \<Rightarrow> vec3 \<Rightarrow> real \<Rightarrow> real option" where
  "distributionGGX N H roughness =
     (let a = distributionGGX_a roughness;
          a2 = a * a;
          NdotH = max (dot N H) 0;
          NdotH2 = NdotH * NdotH;
          denom = NdotH2 * (a2 - 1) + 1;
          denom = PI * denom * denom
      in fdiv a2 (max denom 0.0001))"

definition geometrySchlickGGX :: "real \<Rightarrow> real \<Rightarrow> real option" where
  "geometrySchlickGGX NdotV roughness =
     (let r = roughness + 1;
          k = (r * r) / 8
      in fdiv NdotV (NdotV * (1 - k) + k))"

definition geometrySmith :: "vec3 \<Rightarrow> vec3 \<Rightarrow> vec3 \<Rightarrow> real \<Rightarrow> real option" where
  "geometrySmith N V L roughness =
     (let NdotV = max (dot N V) 0;
          NdotL = max (dot N L) 0
      in do {
        gv \<leftarrow> geometrySchlickGGX NdotV roughness;
        gl \<leftarrow> geometrySchlickGGX NdotL roughness;
        Some (gv * gl)
      })"



text \<open>
  The shadow map is a sampler: \<open>uShadowMap\<close> is the function from a texture coordinate to
  the red channel that \<^verbatim>\<open>texture(uShadowMap, uv).r\<close> returns, whatever the filtering and
  wrapping modes are, and \<open>shadowMapSize\<close> is \<^verbatim>\<open>textureSize(uShadowMap, 0)\<close>.
\<close>

record shadow_uniforms =
  uShadowMap :: "vec2 \<Rightarrow> real"
  shadowMapSize :: "int \<times> int"
  uShadowEnabled :: int
  uShadowBias :: real

definition projCoords_of :: "vec4 \<Rightarrow> vec3 option" where
  \<comment> \<open>Step 1 of \<^verbatim>\<open>calculateShadow\<close>: perspective divide, then the remap to \<open>[0,1]\<close>\<close>
  "projCoords_of lightSpacePos = do {
     projCoords \<leftarrow> vdivs (Vec3 (wx lightSpacePos) (wy lightSpacePos) (wz lightSpacePos))
                     (ww lightSpacePos);
     Some (vadd (vscale 0.5 projCoords) (vec3_of 0.5))
   }"

definition shadow_bias :: "shadow_uniforms \<Rightarrow> vec3 \<Rightarrow> vec3 \<Rightarrow> real" where
  \<comment> \<open>\<^verbatim>\<open>float bias = max(uShadowBias * (1.0 - dot(N, L)), uShadowBias * 0.1);\<close>\<close>
  "shadow_bias su N L = max (uShadowBias su * (1 - dot N L)) (uShadowBias su * 0.1)"

definition pcf_tap :: "shadow_uniforms \<Rightarrow> vec2 \<Rightarrow> vec2 \<Rightarrow> real \<Rightarrow> real \<Rightarrow> int \<Rightarrow> int \<Rightarrow> real" where
  \<comment> \<open>the body of the inner PCF loop: the summand added to \<^verbatim>\<open>shadow\<close>\<close>
  "pcf_tap su pxy texelSize currentDepth bias x y =
     (let pcfDepth = uShadowMap su (fst pxy + real_of_int x * fst texelSize,
                                    snd pxy + real_of_int y * snd texelSize)
      in if currentDepth - bias > pcfDepth then 0 else 1)"

function pcf_loop_y ::
  "shadow_uniforms \<Rightarrow> vec2 \<Rightarrow> vec2 \<Rightarrow> real \<Rightarrow> real \<Rightarrow> int \<Rightarrow> int \<Rightarrow> real \<Rightarrow> real" where
  "pcf_loop_y su pxy texelSize currentDepth bias x y shadow =
     (if y \<le> 2
      then pcf_loop_y su pxy texelSize currentDepth bias x (y + 1)
             (shadow + pcf_tap su pxy texelSize currentDepth bias x y)
      else shadow)"
  by pat_completeness auto
termination
  by (relation "measure (\<lambda>(su, pxy, ts, cd, bias, x, y, shadow). nat (3 - y))") auto

declare pcf_loop_y.simps [simp del]

function pcf_loop_x ::
  "shadow_uniforms \<Rightarrow> vec2 \<Rightarrow> vec2 \<Rightarrow> real \<Rightarrow> real \<Rightarrow> int \<Rightarrow> real \<Rightarrow> real" where
  "pcf_loop_x su pxy texelSize currentDepth bias x shadow =
     (if x \<le> 2
      then pcf_loop_x su pxy texelSize currentDepth bias (x + 1)
             (pcf_loop_y su pxy texelSize currentDepth bias x (- 2) shadow)
      else shadow)"
  by pat_completeness auto
termination
  by (relation "measure (\<lambda>(su, pxy, ts, cd, bias, x, shadow). nat (3 - x))") auto

declare pcf_loop_x.simps [simp del]

definition calculateShadow :: "shadow_uniforms \<Rightarrow> vec4 \<Rightarrow> vec3 \<Rightarrow> vec3 \<Rightarrow> real option" where
  "calculateShadow su lightSpacePos N L =
     (if uShadowEnabled su = 0 then Some 1
      else do {
        projCoords \<leftarrow> projCoords_of lightSpacePos;
        if vz projCoords > 1 \<or> vx projCoords < 0 \<or> vx projCoords > 1 \<or>
           vy projCoords < 0 \<or> vy projCoords > 1
        then Some 1
        else do {
          let currentDepth = vz projCoords;
          let bias = shadow_bias su N L;
          let shadow = 0;
          tx \<leftarrow> fdiv 1 (real_of_int (fst (shadowMapSize su)));
          ty \<leftarrow> fdiv 1 (real_of_int (snd (shadowMapSize su)));
          let texelSize = (tx, ty);
          let shadow = pcf_loop_x su (vx projCoords, vy projCoords) texelSize
                         currentDepth bias (- 2) shadow;
          Some (shadow / 25)
        }
      })"

text \<open>
  The part of \<^verbatim>\<open>main\<close> from the half vector to \<^verbatim>\<open>Lo\<close> (steps 1 to 9), as a function
  of the vectors, the incoming radiance and the shadow factor that \<^verbatim>\<open>main\<close> has computed
  before.  The ambient term, tone mapping and gamma correction come after \<^verbatim>\<open>Lo\<close>.
\<close>

definition main_Lo ::
  "material \<Rightarrow> vec3 \<Rightarrow> vec3 \<Rightarrow> vec3 \<Rightarrow> vec3 \<Rightarrow> vec3 \<Rightarrow> real \<Rightarrow> vec3 option" where
  "main_Lo m H0 N V L radiance shadow = do {
     let H = half_vector H0 V L;
     let F0 = vec3_of 0.04;
     let F0 = mix F0 (uAlbedo m) (uMetallic m);
     D \<leftarrow> distributionGGX N H (uRoughness m);
     G \<leftarrow> geometrySmith N V L (uRoughness m);
     F \<leftarrow> fresnelSchlick2 (max (dot H V) 0) F0;
     let NdotV = max (dot N V) 0;
     let NdotL = max (dot N L) 0;
     specular \<leftarrow> vdivs (vscale (D * G) F) (4 * NdotV * NdotL + 0.0001);
     let kS = F;
     let kD = diffuse_kD m kS;
     diffuse \<leftarrow> vdivs (vmul kD (uAlbedo m)) PI;
     Some (vscale shadow (vscale NdotL (vmul (vadd diffuse specular) radiance)))
   }"


section \<open>Planar shadow matrix: \<^verbatim>\<open>Renderer.buildShadowMatrix\<close>\<close>

text \<open>
  The two arguments are JavaScript arrays that the function destructures into four
  numbers each; every caller passes four.  The result is the \<^verbatim>\<open>Float32Array(16)\<close> in
  column-major order, as a list.  The warning that the function prints when
  \<^verbatim>\<open>window.__debugShadow\<close> is set does not change the result.
\<close>

definition FLOOR_Y :: real where
  "FLOOR_Y = - 0.75"

definition default_planeEq :: vec4 where
  "default_planeEq = Vec4 0 1 0 (- (FLOOR_Y + 0.01))"

definition buildShadowMatrix :: "vec4 \<Rightarrow> vec4 \<Rightarrow> real list" where
  "buildShadowMatrix lightHomogeneous planeEq =
     (case lightHomogeneous of Vec4 lx ly lz lw \<Rightarrow>
      case planeEq of Vec4 a b c d \<Rightarrow>
        let dot = a * lx + b * ly + c * lz + d * lw
        in [dot - lx * a, - ly * a, - lz * a, - lw * a,
            - lx * b, dot - ly * b, - lz * b, - lw * b,
            - lx * c, - ly * c, dot - lz * c, - lw * c,
            - lx * d, - ly * d, - lz * d, dot - lw * d])"

definition vec4_nth :: "vec4 \<Rightarrow> nat \<Rightarrow> real" where
  "vec4_nth v i = (if i = 0 then wx v else if i = 1 then wy v else if i = 2 then wz v else ww v)"

definition dot4 :: "vec4 \<Rightarrow> vec4 \<Rightarrow> real" where
  "dot4 p q = wx p * wx q + wy p * wy q + wz p * wz q + ww p * ww q"

definition mat4_apply :: "real list \<Rightarrow> vec4 \<Rightarrow> vec4" where
  \<comment> \<open>\<^verbatim>\<open>uShadowMat * worldPos\<close> of the vertex shader, for a column-major matrix\<close>
  "mat4_apply m v =
     Vec4 (m ! 0 * wx v + m ! 4 * wy v + m ! 8 * wz v + m ! 12 * ww v)
          (m ! 1 * wx v + m ! 5 * wy v + m ! 9 * wz v + m ! 13 * ww v)
          (m ! 2 * wx v + m ! 6 * wy v + m ! 10 * wz v + m ! 14 * ww v)
          (m ! 3 * wx v + m ! 7 * wy v + m ! 11 * wz v + m ! 15 * ww v)"

section \<open>The formulas of the specification\<close>

text \<open>
  The Smith term as the specification words it: \<open>G1(x) = x / (x (1 - k) + k)\<close> with
  \<open>k = (roughness + 1)\<^sup>2 / 8\<close>, and \<open>G = G1(N\<cdot>V) G1(N\<cdot>L)\<close>.
\<close>

definition G1_spec :: "real \<Rightarrow> real \<Rightarrow> real" where
  "G1_spec k x = x / (x * (1 - k) + k)"

definition smith_spec :: "real \<Rightarrow> real \<Rightarrow> real \<Rightarrow> real" where
  "smith_spec roughness NdotV NdotL =
     (let k = (roughness + 1)\<^sup>2 / 8 in G1_spec k NdotV * G1_spec k NdotL)"

definition scale4 :: "real \<Rightarrow> vec4 \<Rightarrow> vec4" where
  "scale4 s v = Vec4 (s * wx v) (s * wy v) (s * wz v) (s * ww v)"



text \<open>
  The area light as the specification words it: an \<open>8 \<times> 8\<close> grid of sample points
  \<open>centre + u halfWidth t + v halfHeight b\<close>, \<open>u, v \<in> {-1, -1 + 2/7, \<dots>, 1}\<close>, in the
  tangent basis \<open>(t, b)\<close> built from the emitter normal \<open>nrm\<close>; each sample is a point
  light whose radiance is weighted by \<open>cosTheta / dist\<^sup>2\<close>, \<open>cosTheta\<close> the cosine between
  \<open>nrm\<close> and the direction from the sample to the surface, and contributes zero when
  \<open>cosTheta \<le> 0\<close>; the result is the sum of the 64 contributions divided by 64.  The
  emitter normal is a parameter of these definitions.  The reflectance function
  \<open>brdf\<close> takes the direction to the light and the incoming radiance.
\<close>

definition area_grid :: "(nat \<times> nat) list" where
  "area_grid = concat (map (\<lambda>ix. map (\<lambda>iy. (ix, iy)) [0..<8]) [0..<8])"


definition vsum :: "vec3 list \<Rightarrow> vec3" where
  "vsum cs = foldr vadd cs (vec3_of 0)"


text \<open>
  The terms of the BRDF as the specification words them: the GGX distribution
  \<open>D = \<alpha>\<^sup>2 / (\<pi> ((N\<cdot>H)\<^sup>2 (\<alpha>\<^sup>2 - 1) + 1)\<^sup>2)\<close> with the divisor floored at \<open>0.0001\<close>, the Schlick
  Fresnel term \<open>F = F0 + (1 - F0) (1 - V\<cdot>H)\<^sup>5\<close>, and the combination
  \<open>specular = D G F / denom\<close>, \<open>kD = (1 - F) (1 - metallic)\<close>, \<open>diffuse = kD albedo / \<pi>\<close>,
  \<open>(diffuse + specular) radiance (N\<cdot>L)\<close>.  The value of \<open>\<pi>\<close> and the floored divisor of the
  specular term differ between the shaders and are parameters.
\<close>

definition ggx_spec :: "real \<Rightarrow> real \<Rightarrow> real \<Rightarrow> real" where
  "ggx_spec pi_c alpha NdotH =
     alpha\<^sup>2 / max 0.0001 (pi_c * (NdotH\<^sup>2 * (alpha\<^sup>2 - 1) + 1)\<^sup>2)"

definition fresnel_spec :: "vec3 \<Rightarrow> real \<Rightarrow> vec3" where
  "fresnel_spec F0 VdotH = vadd F0 (vscale ((1 - VdotH) ^ 5) (vsub (vec3_of 1) F0))"

definition cook_torrance ::
  "material \<Rightarrow> real \<Rightarrow> real \<Rightarrow> real \<Rightarrow> vec3 \<Rightarrow> real \<Rightarrow> vec3 \<Rightarrow> real \<Rightarrow> vec3" where
  "cook_torrance m pi_c D G F denom radiance NdotL =
     (let specular = vscale (D * G / denom) F;
          kD = vscale (1 - uMetallic m) (vsub (vec3_of 1) F);
          diffuse = vscale (1 / pi_c) (vmul kD (uAlbedo m))
      in vscale NdotL (vmul (vadd diffuse specular) radiance))"

text \<open>The cubic of the smooth step, \<open>t\<^sup>2 (3 - 2 t)\<close>.\<close>

definition hermite_cubic :: "real \<Rightarrow> real" where
  "hermite_cubic t = t\<^sup>2 * (3 - 2 * t)"

section \<open>Checked arithmetic\<close>


lemma schlick_denom_pos:
  fixes x k :: real
  assumes "0 \<le> x" "0 < k" "k \<le> 1"
  shows "0 < x * (1 - k) + k"
proof -
  have "0 \<le> x * (1 - k)" using assms by (intro mult_nonneg_nonneg) auto
  then show ?thesis using assms by linarith
qed

lemma smith_k_range:
  fixes r :: real
  assumes "0 \<le> r" "r \<le> 1"
  shows "0 < (r + 1) * (r + 1) / 8" "(r + 1) * (r + 1) / 8 \<le> 1"
proof -
  have "1 * 1 \<le> (r + 1) * (r + 1)" using assms by (intro mult_mono) auto
  then show "0 < (r + 1) * (r + 1) / 8" by simp
  have "(r + 1) * (r + 1) \<le> 2 * 2" using assms by (intro mult_mono) auto
  then show "(r + 1) * (r + 1) / 8 \<le> 1" by simp
qed

section \<open>The Smith geometry term\<close>

text \<open>
  The second shader computes the remap from the roughness uniform, as the specification
  words it.
\<close>

lemma geometrySmith_spec:
  assumes "0 \<le> r" "r \<le> 1"
  shows "geometrySmith N V L r = Some (smith_spec r (max (dot N V) 0) (max (dot N L) 0))"
proof -
  let ?k = "(r + 1) * (r + 1) / 8"
  have k: "0 < ?k" "?k \<le> 1" using smith_k_range[OF assms] by auto
  have a: "max (dot N V) 0 * (1 - ?k) + ?k \<noteq> 0"
    using schlick_denom_pos[of "max (dot N V) 0" ?k] k by simp
  have b: "max (dot N L) 0 * (1 - ?k) + ?k \<noteq> 0"
    using schlick_denom_pos[of "max (dot N L) 0" ?k] k by simp
  show ?thesis
    using a b
    by (simp add: geometrySmith_def geometrySchlickGGX_def smith_spec_def G1_spec_def
        fdiv_def Let_def power2_eq_square)
qed

text \<open>
  The main path hands \<^verbatim>\<open>alpha\<close> to \<^verbatim>\<open>G_Smith\<close>, so its remap is
  \<open>k = (\<alpha> + 1)\<^sup>2 / 8\<close> with \<open>\<alpha> = max 0.001 roughness\<^sup>2\<close>.
\<close>

lemma brdf_G_alpha:
  assumes "0 \<le> uRoughness m" "uRoughness m \<le> 1" "0 \<le> x" "0 \<le> y"
  shows "brdf_G m x y = Some (smith_spec (brdf_alpha m) x y)"
proof -
  let ?a = "brdf_alpha m"
  let ?k = "(?a + 1) * (?a + 1) / 8"
  have "uRoughness m * uRoughness m \<le> 1 * 1" using assms by (intro mult_mono) auto
  then have r: "0 \<le> ?a" "?a \<le> 1" by (simp_all add: brdf_alpha_def)
  have k: "0 < ?k" "?k \<le> 1" using smith_k_range[OF r] by auto
  have a: "x * (1 - ?k) + ?k \<noteq> 0" using schlick_denom_pos[of x ?k] k assms by simp
  have b: "y * (1 - ?k) + ?k \<noteq> 0" using schlick_denom_pos[of y ?k] k assms by simp
  show ?thesis
    using a b
    by (simp add: brdf_G_def G_Smith_def G_SchlickGGX_def smith_spec_def G1_spec_def
        fdiv_def Let_def power2_eq_square)
qed

text \<open>
  Claim C2.  In both fragment shaders the Smith geometry term is
  \<open>G1(N\<cdot>V) G1(N\<cdot>L)\<close> with \<open>k = (roughness + 1)\<^sup>2 / 8\<close> computed from the roughness
  parameter.  The main path does not: at roughness \<open>1/2\<close> and
  \<open>N = (0,0,1)\<close>, \<open>V = L = (3/5, 0, 4/5)\<close> its term is \<open>(512/537)\<^sup>2\<close>, the value for
  \<open>k = (roughness\<^sup>2 + 1)\<^sup>2 / 8\<close>, where the claimed formula gives \<open>(128/137)\<^sup>2\<close>.
\<close>

theorem main_path_G_uses_alpha:
  "brdf_G \<lparr>uAlbedo = Vec3 1 1 1, uMetallic = 0, uRoughness = 1/2\<rparr>
      (clamp (dot (Vec3 0 0 1) (Vec3 (3/5) 0 (4/5))) 0 1)
      (clamp (dot (Vec3 0 0 1) (Vec3 (3/5) 0 (4/5))) 0 1) = Some ((512/537)\<^sup>2)
   \<and> smith_spec (1/2) (4/5) (4/5) = (128/137)\<^sup>2
   \<and> (512/537 :: real)\<^sup>2 \<noteq> (128/137)\<^sup>2"
  by (simp add: brdf_G_def brdf_alpha_def G_Smith_def G_SchlickGGX_def fdiv_def clamp_def
      smith_spec_def G1_spec_def Let_def power2_eq_square)

section \<open>Ranges of the BRDF terms\<close>

lemma dot_self_nonneg: "0 \<le> dot v v"
  by (cases v) simp

lemma dot_self_zero_iff: "dot v v = 0 \<longleftrightarrow> v = Vec3 0 0 0"
proof (cases v)
  case (Vec3 a b c)
  have "0 \<le> a * a + b * b" by (intro add_nonneg_nonneg) simp_all
  then have "a * a + b * b + c * c = 0 \<longleftrightarrow> a * a + b * b = 0 \<and> c * c = 0"
    by (intro add_nonneg_eq_0_iff) simp_all
  also have "\<dots> \<longleftrightarrow> a = 0 \<and> b = 0 \<and> c = 0"
    by (simp add: sum_squares_eq_zero_iff)
  finally show ?thesis using Vec3 by simp
qed

lemma length3_zero_iff: "length3 v = 0 \<longleftrightarrow> v = Vec3 0 0 0"
  by (simp add: length3_def dot_self_zero_iff)

lemma normalize3_Some:
  assumes "v \<noteq> Vec3 0 0 0"
  shows "normalize3 v = Some (Vec3 (vx v / length3 v) (vy v / length3 v) (vz v / length3 v))"
  using assms by (cases v) (simp add: normalize3_def length3_zero_iff[symmetric])

lemma normalize3_None: "normalize3 (Vec3 0 0 0) = None"
  by (simp add: normalize3_def length3_def)

lemma clamp01: "in01 (clamp x 0 1)"
  by (simp add: clamp_def in01_def)

lemma clamp01_zero: "x \<le> 0 \<Longrightarrow> clamp x 0 1 = 0"
  by (simp add: clamp_def)

lemma fdiv_floor:
  assumes "0 \<le> a" "0 < e"
  shows "\<exists>d. fdiv a (max e x) = Some d \<and> 0 \<le> d"
proof -
  have "0 < max e x" using assms(2) by (simp add: less_max_iff_disj)
  then show ?thesis using assms(1) by (simp add: fdiv_def)
qed

lemma fdiv_floor_right:
  assumes "0 \<le> a" "0 < e"
  shows "\<exists>d. fdiv a (max x e) = Some d \<and> 0 \<le> d"
  using fdiv_floor[OF assms, of x] by (simp add: max.commute)

lemma D_GGX_Some: "\<exists>d. D_GGX x a = Some d \<and> 0 \<le> d"
  unfolding D_GGX_def Let_def by (rule fdiv_floor) simp_all

lemma distributionGGX_Some: "\<exists>d. distributionGGX N H r = Some d \<and> 0 \<le> d"
  unfolding distributionGGX_def Let_def by (rule fdiv_floor_right) simp_all

lemma G1_spec_nonneg:
  assumes "0 \<le> x" "0 < k" "k \<le> 1"
  shows "0 \<le> G1_spec k x"
  unfolding G1_spec_def
  using schlick_denom_pos[OF assms] assms(1) by simp

lemma smith_spec_nonneg:
  assumes "0 \<le> r" "r \<le> 1" "0 \<le> x" "0 \<le> y"
  shows "0 \<le> smith_spec r x y"
proof -
  have k: "0 < (r + 1)\<^sup>2 / 8" "(r + 1)\<^sup>2 / 8 \<le> 1"
    using smith_k_range[OF assms(1,2)] by (simp_all add: power2_eq_square)
  show ?thesis
    unfolding smith_spec_def Let_def
    using G1_spec_nonneg[OF assms(3) k] G1_spec_nonneg[OF assms(4) k] by simp
qed

lemma brdf_alpha_range:
  assumes "0 \<le> uRoughness m" "uRoughness m \<le> 1"
  shows "0 \<le> brdf_alpha m" "brdf_alpha m \<le> 1"
proof -
  have "uRoughness m * uRoughness m \<le> 1 * 1" using assms by (intro mult_mono) auto
  then show "0 \<le> brdf_alpha m" "brdf_alpha m \<le> 1" by (simp_all add: brdf_alpha_def)
qed

lemma brdf_G_nonneg:
  assumes "0 \<le> uRoughness m" "uRoughness m \<le> 1" "0 \<le> x" "0 \<le> y"
  shows "\<exists>g. brdf_G m x y = Some g \<and> 0 \<le> g"
  using brdf_G_alpha[OF assms] smith_spec_nonneg[OF brdf_alpha_range[OF assms(1,2)] assms(3,4)]
  by simp

lemma geometrySmith_nonneg:
  assumes "0 \<le> r" "r \<le> 1"
  shows "\<exists>g. geometrySmith N V L r = Some g \<and> 0 \<le> g"
  using geometrySmith_spec[OF assms, of N V L]
    smith_spec_nonneg[OF assms, of "max (dot N V) 0" "max (dot N L) 0"]
  by simp

lemma schlick_scalar:
  fixes f p :: real
  assumes "0 \<le> f" "f \<le> 1" "0 \<le> p" "p \<le> 1"
  shows "0 \<le> f + p * (1 - f)" "f + p * (1 - f) \<le> 1"
proof -
  have "0 \<le> p * (1 - f)" using assms by (intro mult_nonneg_nonneg) auto
  then show "0 \<le> f + p * (1 - f)" using assms by linarith
  have "p * (1 - f) \<le> 1 * (1 - f)" using assms by (intro mult_right_mono) auto
  then show "f + p * (1 - f) \<le> 1" by simp
qed

lemma schlick_vec:
  assumes "in01_3 F0" "0 \<le> p" "p \<le> 1"
  shows "in01_3 (vadd F0 (vscale p (vsub (vec3_of 1) F0)))"
proof (cases F0)
  case (Vec3 a b c)
  then have r: "0 \<le> a" "a \<le> 1" "0 \<le> b" "b \<le> 1" "0 \<le> c" "c \<le> 1"
    using assms(1) by (simp_all add: in01_3_def in01_def)
  show ?thesis
    using Vec3 schlick_scalar[OF r(1,2) assms(2,3)] schlick_scalar[OF r(3,4) assms(2,3)]
      schlick_scalar[OF r(5,6) assms(2,3)]
    by (simp add: in01_3_def in01_def vec3_of_def)
qed

lemma fresnelSchlick_in01:
  assumes "in01 c" "in01_3 F0"
  shows "\<exists>F. fresnelSchlick c F0 = Some F \<and> in01_3 F"
proof -
  have p: "0 \<le> (1 - c) ^ 5" "(1 - c) ^ 5 \<le> 1"
    using assms(1) by (simp_all add: in01_def power_le_one)
  have "\<not> 1 - c < 0" using assms(1) by (simp add: in01_def)
  then have "fresnelSchlick c F0 = Some (vadd F0 (vscale ((1 - c) ^ 5) (vsub (vec3_of 1) F0)))"
    by (simp add: fresnelSchlick_def glsl_pow5_def)
  then show ?thesis using schlick_vec[OF assms(2) p] by simp
qed

lemma fresnelSchlick2_in01:
  assumes "in01_3 F0"
  shows "\<exists>F. fresnelSchlick2 c F0 = Some F \<and> in01_3 F"
proof -
  let ?x = "clamp (1 - c) 0 1"
  have x: "0 \<le> ?x" "?x \<le> 1" using clamp01[of "1 - c"] by (simp_all add: in01_def)
  have p: "0 \<le> ?x ^ 5" "?x ^ 5 \<le> 1" using x by (simp_all add: power_le_one)
  have "\<not> ?x < 0" using x by simp
  then have "fresnelSchlick2 c F0 = Some (vadd F0 (vscale (?x ^ 5) (vsub (vec3_of 1) F0)))"
    by (simp add: fresnelSchlick2_def glsl_pow5_def)
  then show ?thesis using schlick_vec[OF assms p] by simp
qed

lemma mix_scalar:
  fixes a c t :: real
  assumes "0 \<le> a" "a \<le> 1" "0 \<le> t" "t \<le> 1" "0 \<le> c" "c \<le> 1"
  shows "0 \<le> (1 - t) * c + t * a" "(1 - t) * c + t * a \<le> 1"
proof -
  have 1: "0 \<le> t * a" "0 \<le> (1 - t) * c" using assms by (auto intro!: mult_nonneg_nonneg)
  have 2: "t * a \<le> t" using assms by (intro mult_left_le) auto
  have 3: "(1 - t) * c \<le> 1 - t" using assms by (intro mult_left_le) auto
  show "0 \<le> (1 - t) * c + t * a" using 1 by linarith
  show "(1 - t) * c + t * a \<le> 1" using 2 3 by linarith
qed

lemma F0_in01:
  assumes "in01_3 (uAlbedo m)" "in01 (uMetallic m)"
  shows "in01_3 (mix (vec3_of 0.04) (uAlbedo m) (uMetallic m))"
proof (cases "uAlbedo m")
  case (Vec3 a b c)
  then have r: "0 \<le> a" "a \<le> 1" "0 \<le> b" "b \<le> 1" "0 \<le> c" "c \<le> 1"
    using assms(1) by (simp_all add: in01_3_def in01_def)
  have t: "0 \<le> uMetallic m" "uMetallic m \<le> 1" using assms(2) by (simp_all add: in01_def)
  have c: "(0::real) \<le> 0.04" "(0.04::real) \<le> 1" by simp_all
  show ?thesis
    unfolding mix_def vec3_of_def in01_3_def in01_def Vec3
    using mix_scalar[OF r(1,2) t c] mix_scalar[OF r(3,4) t c] mix_scalar[OF r(5,6) t c]
    by (simp del: divide_le_eq_numeral1 le_divide_eq_numeral1)
qed

lemma kD_nonneg:
  assumes "in01 (uMetallic m)" "in01_3 F"
  shows "nonneg3 (diffuse_kD m F)"
  using assms by (cases F) (simp add: diffuse_kD_def vec3_of_def nonneg3_def in01_def in01_3_def)

lemma nonneg3_vmul: "nonneg3 a \<Longrightarrow> nonneg3 b \<Longrightarrow> nonneg3 (vmul a b)"
  by (cases a; cases b) (simp add: nonneg3_def)

lemma nonneg3_vadd: "nonneg3 a \<Longrightarrow> nonneg3 b \<Longrightarrow> nonneg3 (vadd a b)"
  by (cases a; cases b) (simp add: nonneg3_def)

lemma nonneg3_vscale: "0 \<le> s \<Longrightarrow> nonneg3 a \<Longrightarrow> nonneg3 (vscale s a)"
  by (cases a) (simp add: nonneg3_def)

lemma nonneg3_vdivs: "0 < s \<Longrightarrow> nonneg3 a \<Longrightarrow> \<exists>q. vdivs a s = Some q \<and> nonneg3 q"
  by (cases a) (simp add: nonneg3_def)

lemma in01_3_nonneg: "in01_3 a \<Longrightarrow> nonneg3 a"
  by (simp add: in01_3_def in01_def nonneg3_def)

lemma vscale_zero: "vscale 0 a = vec3_of 0"
  by (cases a) (simp add: vec3_of_def)


section \<open>Diffuse and specular coefficients\<close>

lemma kD_kS_scalar:
  fixes m f :: real
  assumes "0 \<le> m" "m \<le> 1" "0 \<le> f" "f \<le> 1"
  shows "0 \<le> (1 - m) * (1 - f) + f" "(1 - m) * (1 - f) + f \<le> 1"
proof -
  have "0 \<le> (1 - m) * (1 - f)" using assms by (intro mult_nonneg_nonneg) auto
  then show "0 \<le> (1 - m) * (1 - f) + f" using assms by linarith
  have "0 \<le> m * (1 - f)" using assms by (intro mult_nonneg_nonneg) auto
  moreover have "(1 - m) * (1 - f) + f = 1 - m * (1 - f)" by (simp add: algebra_simps)
  ultimately show "(1 - m) * (1 - f) + f \<le> 1" by linarith
qed

text \<open>
  Claim C9, as stated: with \<open>kS = F\<close> and \<open>kD = (1 - kS) (1 - metallic)\<close>, the sum
  \<open>kD + kS\<close> is 1 in every channel for every \<open>F\<close> in \<open>[0,1]\<^sup>3\<close> and every metallic in
  \<open>[0,1]\<close>.  It fails for a metal: at metallic 1 and \<open>F = 1/2\<close> the sum is \<open>1/2\<close>.
\<close>

theorem kD_plus_kS_metal_counterexample:
  "vadd (diffuse_kD \<lparr>uAlbedo = Vec3 1 1 1, uMetallic = 1, uRoughness = 1/2\<rparr>
           (Vec3 (1/2) (1/2) (1/2)))
        (Vec3 (1/2) (1/2) (1/2)) \<noteq> vec3_of 1"
  by (simp add: diffuse_kD_def vec3_of_def)

text \<open>
  Claim C9, amended: \<open>kD + kS = 1 - metallic (1 - F)\<close> in every channel; for \<open>F\<close> and
  metallic in range the sum lies in \<open>[0,1]\<close>, and it is 1 when metallic is 0.
\<close>

theorem kD_plus_kS:
  assumes "in01 (uMetallic m)" "in01_3 F"
  shows "vadd (diffuse_kD m F) F = vsub (vec3_of 1) (vscale (uMetallic m) (vsub (vec3_of 1) F))
    \<and> in01_3 (vadd (diffuse_kD m F) F)
    \<and> (uMetallic m = 0 \<longrightarrow> vadd (diffuse_kD m F) F = vec3_of 1)"
proof (cases F)
  case (Vec3 a b c)
  have r: "0 \<le> uMetallic m" "uMetallic m \<le> 1"
    "0 \<le> a" "a \<le> 1" "0 \<le> b" "b \<le> 1" "0 \<le> c" "c \<le> 1"
    using assms Vec3 by (simp_all add: in01_def in01_3_def)
  have eq: "vadd (diffuse_kD m F) F
      = vsub (vec3_of 1) (vscale (uMetallic m) (vsub (vec3_of 1) F))"
    using Vec3 by (simp add: diffuse_kD_def vec3_of_def algebra_simps)
  have rng: "in01_3 (vadd (diffuse_kD m F) F)"
    using Vec3 kD_kS_scalar[OF r(1,2) r(3,4)] kD_kS_scalar[OF r(1,2) r(5,6)]
      kD_kS_scalar[OF r(1,2) r(7,8)]
    by (simp add: diffuse_kD_def vec3_of_def in01_def in01_3_def)
  have one: "uMetallic m = 0 \<longrightarrow> vadd (diffuse_kD m F) F = vec3_of 1"
    using Vec3 by (simp add: diffuse_kD_def vec3_of_def)
  show ?thesis using eq rng one by blast
qed

theorem kD_plus_kS_witness:
  "in01 (uMetallic \<lparr>uAlbedo = Vec3 1 1 1, uMetallic = 0, uRoughness = 1/2\<rparr>)
   \<and> in01_3 (Vec3 (1/2) (1/4) 1)
   \<and> vadd (diffuse_kD \<lparr>uAlbedo = Vec3 1 1 1, uMetallic = 0, uRoughness = 1/2\<rparr>
             (Vec3 (1/2) (1/4) 1))
          (Vec3 (1/2) (1/4) 1) = vec3_of 1"
proof -
  have a: "in01 (uMetallic \<lparr>uAlbedo = Vec3 1 1 1, uMetallic = 0, uRoughness = 1/2\<rparr>)"
    by (simp add: in01_def)
  have b: "in01_3 (Vec3 (1/2) (1/4) 1)" by (simp add: in01_def in01_3_def)
  show ?thesis using a b kD_plus_kS[OF a b] by (simp add: vec3_of_def)
qed

section \<open>The planar shadow matrix\<close>

lemma shadow_apply:
  "mat4_apply (buildShadowMatrix L P) X =
     Vec4 (dot4 P L * wx X - wx L * dot4 P X) (dot4 P L * wy X - wy L * dot4 P X)
          (dot4 P L * wz X - wz L * dot4 P X) (dot4 P L * ww X - ww L * dot4 P X)"
  by (cases L; cases P; cases X)
     (simp add: buildShadowMatrix_def dot4_def mat4_apply_def Let_def algebra_simps)

text \<open>
  Claim C7.  \<^verbatim>\<open>buildShadowMatrix(L, P)\<close> returns the matrix with entries
  \<open>M[i][j] = dot \<delta>(i,j) - L[i] P[j]\<close>, \<open>dot = P\<cdot>L\<close>, stored column-major (entry
  \<open>(i,j)\<close> at index \<open>4 j + i\<close>); for every homogeneous point \<open>X\<close> on the plane
  (\<open>P\<cdot>X = 0\<close>), \<open>M X = dot X\<close>; and the \<open>w\<close> component of \<open>M L\<close> is 0.
\<close>

theorem buildShadowMatrix_entries_plane_light:
  "(\<forall>i<4. \<forall>j<4. buildShadowMatrix L P ! (4 * j + i)
        = (if i = j then dot4 P L else 0) - vec4_nth L i * vec4_nth P j)
   \<and> (dot4 P X = 0 \<longrightarrow> mat4_apply (buildShadowMatrix L P) X = scale4 (dot4 P L) X)
   \<and> ww (mat4_apply (buildShadowMatrix L P) L) = 0"
proof (intro conjI allI impI)
  fix i j :: nat assume "i < 4" "j < 4"
  then have "i \<in> {0,1,2,3}" "j \<in> {0,1,2,3}" by auto
  then show "buildShadowMatrix L P ! (4 * j + i)
        = (if i = j then dot4 P L else 0) - vec4_nth L i * vec4_nth P j"
    by (cases L; cases P) (auto simp: buildShadowMatrix_def dot4_def vec4_nth_def Let_def)
next
  assume "dot4 P X = 0"
  then show "mat4_apply (buildShadowMatrix L P) X = scale4 (dot4 P L) X"
    by (simp add: shadow_apply scale4_def)
next
  show "ww (mat4_apply (buildShadowMatrix L P) L) = 0"
    by (simp add: shadow_apply mult.commute)
qed

theorem buildShadowMatrix_entries_plane_light_witness:
  "(0::nat) < 4 \<and> (1::nat) < 4
   \<and> dot4 default_planeEq (Vec4 1 (- 0.74) 2 1) = 0
   \<and> buildShadowMatrix (Vec4 0 5 0 1) default_planeEq ! (4 * 1 + 0) = 0 - 0 * 1
   \<and> mat4_apply (buildShadowMatrix (Vec4 0 5 0 1) default_planeEq) (Vec4 1 (- 0.74) 2 1)
       = scale4 5.74 (Vec4 1 (- 0.74) 2 1)
   \<and> ww (mat4_apply (buildShadowMatrix (Vec4 0 5 0 1) default_planeEq) (Vec4 0 5 0 1)) = 0"
proof -
  note t = buildShadowMatrix_entries_plane_light
             [of "Vec4 0 5 0 1" default_planeEq "Vec4 1 (- 0.74) 2 1"]
  have p: "dot4 default_planeEq (Vec4 1 (- 0.74) 2 1) = 0"
    by (simp add: dot4_def default_planeEq_def FLOOR_Y_def)
  have d: "dot4 default_planeEq (Vec4 0 5 0 1) = 5.74"
    by (simp add: dot4_def default_planeEq_def FLOOR_Y_def)
  have e: "buildShadowMatrix (Vec4 0 5 0 1) default_planeEq ! (4 * 1 + 0) = 0 - 0 * 1"
    using t[THEN conjunct1, rule_format, of 0 1]
    by (simp add: vec4_nth_def default_planeEq_def)
  have a: "mat4_apply (buildShadowMatrix (Vec4 0 5 0 1) default_planeEq) (Vec4 1 (- 0.74) 2 1)
       = scale4 5.74 (Vec4 1 (- 0.74) 2 1)"
    using t[THEN conjunct2, THEN conjunct1] p d by simp
  show ?thesis using p e a t[THEN conjunct2, THEN conjunct2] by simp
qed

section \<open>The roughness floor of the distribution term\<close>

lemma vdivs_scale: "s \<noteq> 0 \<Longrightarrow> vdivs v s = Some (vscale (1 / s) v)"
  by (cases v) simp

lemma fdiv_max:
  assumes "0 < e"
  shows "fdiv a (max e y) = Some (a / max e y)"
proof -
  have "0 < max e y" using assms by (simp add: less_max_iff_disj)
  then show ?thesis by (simp add: fdiv_def)
qed

lemma D_GGX_spec: "D_GGX x a = Some (ggx_spec 3.14159265 a x)"
proof -
  define d where "d = x * x * (a * a - 1) + 1"
  have "D_GGX x a = fdiv (a * a) (max 0.0001 (3.14159265 * d * d))"
    unfolding D_GGX_def Let_def d_def by (rule refl)
  also have "\<dots> = Some (a * a / max 0.0001 (3.14159265 * d * d))"
    by (rule fdiv_max) simp
  also have "a * a / max 0.0001 (3.14159265 * d * d) = ggx_spec 3.14159265 a x"
    by (simp only: ggx_spec_def power2_eq_square d_def mult.assoc)
  finally show ?thesis .
qed

lemma distributionGGX_spec:
  "distributionGGX N H r = Some (ggx_spec PI (r\<^sup>2) (max (dot N H) 0))"
proof -
  define x where "x = max (dot N H) 0"
  define a where "a = r * r"
  define d where "d = x * x * (a * a - 1) + 1"
  have "distributionGGX N H r = fdiv (a * a) (max (PI * d * d) 0.0001)"
    unfolding distributionGGX_def distributionGGX_a_def Let_def d_def a_def x_def
    by (rule refl)
  also have "\<dots> = fdiv (a * a) (max 0.0001 (PI * d * d))" by (simp only: max.commute)
  also have "\<dots> = Some (a * a / max 0.0001 (PI * d * d))"
    by (rule fdiv_max) simp
  also have "a * a / max 0.0001 (PI * d * d) = ggx_spec PI (r\<^sup>2) (max (dot N H) 0)"
    by (simp only: ggx_spec_def power2_eq_square d_def a_def x_def mult.assoc)
  finally show ?thesis .
qed

lemma fresnelSchlick_spec:
  assumes "c \<le> 1"
  shows "fresnelSchlick c F0 = Some (fresnel_spec F0 c)"
  using assms by (simp add: fresnelSchlick_def glsl_pow5_def fresnel_spec_def)

lemma fresnelSchlick2_spec:
  "fresnelSchlick2 (max d 0) F0 = Some (fresnel_spec F0 (clamp d 0 1))"
proof -
  have "clamp (1 - max d 0) 0 1 = 1 - clamp d 0 1" by (simp add: clamp_def min_def max_def)
  moreover have "\<not> 1 - clamp d 0 1 < 0" by (simp add: clamp_def)
  ultimately show ?thesis
    by (simp add: fresnelSchlick2_def glsl_pow5_def fresnel_spec_def)
qed

text \<open>
  Claim C3, as stated: in every shading path \<open>\<alpha> = roughness\<^sup>2\<close> is clamped below by
  \<open>0.001\<close> before the GGX distribution uses it.  The second shader does not clamp: at
  roughness 0 its \<open>\<alpha>\<close> is 0, and its distribution term at \<open>N = H\<close> is \<open>0\<close>, where
  the clamped \<open>\<alpha>\<close> of the main path gives \<open>1/100\<close>.
\<close>

theorem distributionGGX_alpha_unclamped_counterexample:
  "distributionGGX_a 0 \<noteq> max 0.001 (0 * 0)
   \<and> distributionGGX_a 0 = 0
   \<and> distributionGGX (Vec3 0 0 1) (Vec3 0 0 1) 0 = Some 0
   \<and> D_GGX 1 (max 0.001 (0 * 0)) = Some (1/100)"
  by (simp add: distributionGGX_a_def distributionGGX_def D_GGX_def fdiv_def Let_def PI_def)

text \<open>
  Claim C3, amended.  For every material in range, all vectors and every radiance:
  \<^verbatim>\<open>evaluateBRDF\<close> of the main path returns the Cook-Torrance combination whose
  distribution term is the GGX term at \<open>\<alpha> = max 0.001 roughness\<^sup>2\<close>; the \<^verbatim>\<open>Lo\<close> of the
  second path returns the combination whose distribution term is the GGX term at
  \<open>\<alpha> = roughness\<^sup>2\<close>, not clamped.  In both the divisor of the distribution term is floored
  at \<open>0.0001\<close>, so the division is defined for every roughness in \<open>[0,1]\<close>, roughness 0
  included, and every \<open>N\<cdot>H\<close>.
\<close>

theorem brdf_closed_form:
  assumes vm: "valid_material m"
  shows "evaluateBRDF m H0 N V L radiance
       = Some (cook_torrance m 3.14159265
                (ggx_spec 3.14159265 (max 0.001 ((uRoughness m)\<^sup>2))
                   (clamp (dot N (half_vector H0 V L)) 0 1))
                (smith_spec (max 0.001 ((uRoughness m)\<^sup>2))
                   (clamp (dot N V) 0 1) (clamp (dot N L) 0 1))
                (fresnel_spec (mix (vec3_of 0.04) (uAlbedo m) (uMetallic m))
                   (clamp (dot V (half_vector H0 V L)) 0 1))
                (max 0.001 (4 * clamp (dot N V) 0 1 * clamp (dot N L) 0 1))
                radiance (clamp (dot N L) 0 1))
    \<and> main_Lo m H0 N V L radiance shadow
       = Some (vscale shadow
                (cook_torrance m PI
                  (ggx_spec PI ((uRoughness m)\<^sup>2) (max (dot N (half_vector H0 V L)) 0))
                  (smith_spec (uRoughness m) (max (dot N V) 0) (max (dot N L) 0))
                  (fresnel_spec (mix (vec3_of 0.04) (uAlbedo m) (uMetallic m))
                     (clamp (dot (half_vector H0 V L) V) 0 1))
                  (4 * max (dot N V) 0 * max (dot N L) 0 + 0.0001)
                  radiance (max (dot N L) 0)))"
proof -
  have ro: "0 \<le> uRoughness m" "uRoughness m \<le> 1"
    using vm by (simp_all add: valid_material_def in01_def)
  define H where "H = half_vector H0 V L"
  define F0 where "F0 = mix (vec3_of 0.04) (uAlbedo m) (uMetallic m)"
  have c01: "\<And>x. 0 \<le> clamp x 0 1 \<and> clamp x 0 1 \<le> 1" using clamp01 by (simp add: in01_def)
  have al: "brdf_alpha m = max 0.001 ((uRoughness m)\<^sup>2)"
    by (simp add: brdf_alpha_def power2_eq_square)
  have G: "brdf_G m (clamp (dot N V) 0 1) (clamp (dot N L) 0 1)
      = Some (smith_spec (max 0.001 ((uRoughness m)\<^sup>2)) (clamp (dot N V) 0 1) (clamp (dot N L) 0 1))"
    using brdf_G_alpha[OF ro, of "clamp (dot N V) 0 1" "clamp (dot N L) 0 1"] c01
    by (simp add: al)
  have F: "fresnelSchlick (clamp (dot V H) 0 1) F0 = Some (fresnel_spec F0 (clamp (dot V H) 0 1))"
    using c01 by (intro fresnelSchlick_spec) simp
  have d1: "max 0.001 (4 * clamp (dot N V) 0 1 * clamp (dot N L) 0 1) \<noteq> 0"
  proof -
    have "0 < max 0.001 (4 * clamp (dot N V) 0 1 * clamp (dot N L) 0 1)"
      by (simp add: less_max_iff_disj)
    then show ?thesis by simp
  qed
  have main: "evaluateBRDF m H0 N V L radiance
       = Some (cook_torrance m 3.14159265
                (ggx_spec 3.14159265 (max 0.001 ((uRoughness m)\<^sup>2)) (clamp (dot N H) 0 1))
                (smith_spec (max 0.001 ((uRoughness m)\<^sup>2))
                   (clamp (dot N V) 0 1) (clamp (dot N L) 0 1))
                (fresnel_spec F0 (clamp (dot V H) 0 1))
                (max 0.001 (4 * clamp (dot N V) 0 1 * clamp (dot N L) 0 1))
                radiance (clamp (dot N L) 0 1))"
    unfolding evaluateBRDF_def Let_def H_def[symmetric] F0_def[symmetric]
    using G F
    by (simp add: D_GGX_spec al vdivs_scale[OF d1] vdivs_scale cook_torrance_def Let_def
        diffuse_kD_def)
       (cases "fresnel_spec F0 (clamp (dot V H) 0 1)"; simp)
  have G2: "geometrySmith N V L (uRoughness m)
      = Some (smith_spec (uRoughness m) (max (dot N V) 0) (max (dot N L) 0))"
    by (rule geometrySmith_spec[OF ro])
  have "0 \<le> 4 * max (dot N V) 0 * max (dot N L) 0" by (intro mult_nonneg_nonneg) auto
  then have "0 < 4 * max (dot N V) 0 * max (dot N L) 0 + 0.0001" by (rule add_nonneg_pos) simp
  then have d2: "4 * max (dot N V) 0 * max (dot N L) 0 + 0.0001 \<noteq> 0" by simp
  have pi0: "PI \<noteq> 0" by (simp add: PI_def)
  have second: "main_Lo m H0 N V L radiance shadow
       = Some (vscale shadow
                (cook_torrance m PI
                  (ggx_spec PI ((uRoughness m)\<^sup>2) (max (dot N H) 0))
                  (smith_spec (uRoughness m) (max (dot N V) 0) (max (dot N L) 0))
                  (fresnel_spec F0 (clamp (dot H V) 0 1))
                  (4 * max (dot N V) 0 * max (dot N L) 0 + 0.0001)
                  radiance (max (dot N L) 0)))"
    unfolding main_Lo_def Let_def H_def[symmetric] F0_def[symmetric]
    using G2 d2
    by (simp add: distributionGGX_spec fresnelSchlick2_spec vdivs_scale[OF d2]
        vdivs_scale[OF pi0] cook_torrance_def Let_def diffuse_kD_def)
       (cases "fresnel_spec F0 (clamp (dot H V) 0 1)"; simp)
  show ?thesis using main second unfolding H_def F0_def by simp
qed

theorem brdf_closed_form_witness:
  "valid_material \<lparr>uAlbedo = Vec3 1 1 1, uMetallic = 0, uRoughness = 0\<rparr>
   \<and> evaluateBRDF \<lparr>uAlbedo = Vec3 1 1 1, uMetallic = 0, uRoughness = 0\<rparr> (Vec3 1 0 0)
        (Vec3 0 0 1) (Vec3 0 0 1) (Vec3 0 0 1) (Vec3 1 1 1)
      = Some (vec3_of (6400000 / 20943951 + 1 / 10000))
   \<and> main_Lo \<lparr>uAlbedo = Vec3 1 1 1, uMetallic = 0, uRoughness = 0\<rparr> (Vec3 1 0 0)
        (Vec3 0 0 1) (Vec3 0 0 1) (Vec3 0 0 1) (Vec3 1 1 1) 1
      = Some (vec3_of (96000000000 / 314159265359))"
proof -
  let ?m = "\<lparr>uAlbedo = Vec3 1 1 1, uMetallic = 0, uRoughness = 0\<rparr>"
  have vm: "valid_material ?m" by (simp add: valid_material_def in01_3_def in01_def)
  have hv: "half_vector (Vec3 1 0 0) (Vec3 0 0 1) (Vec3 0 0 1) = Vec3 0 0 1"
    by (simp add: half_vector_def normalize3_def length3_def)
  have a: "max (1 / 1000) ((0::real)\<^sup>2) = 1 / 1000" by simp
  have d: "ggx_spec (62831853 / 20000000) (1 / 1000) 1 = 1 / 100"
    by (simp add: ggx_spec_def max_def power_divide)
  have d2: "ggx_spec (314159265359 / 100000000000) 0 1 = 0" by (simp add: ggx_spec_def)
  show ?thesis
    using vm brdf_closed_form[OF vm, of "Vec3 1 0 0" "Vec3 0 0 1" "Vec3 0 0 1" "Vec3 0 0 1"
        "Vec3 1 1 1" 1]
    by (simp add: hv clamp_def a d d2 cook_torrance_def smith_spec_def G1_spec_def
        fresnel_spec_def mix_def vec3_of_def Let_def PI_def)
qed

section \<open>The tangent basis of the area light\<close>

lemma abs_small_square:
  fixes b :: real
  assumes "\<bar>b\<bar> < 0.999"
  shows "b * b < 1"
proof -
  have "\<bar>b\<bar> * \<bar>b\<bar> < 1 * 1" using assms by (intro mult_strict_mono) auto
  then show ?thesis by simp
qed

lemma abs_large_square:
  fixes b :: real
  assumes "\<not> \<bar>b\<bar> < 0.999"
  shows "0 < b * b"
proof -
  have "b \<noteq> 0" using assms by auto
  then have "0 < b\<^sup>2" by simp
  then show ?thesis by (simp add: power2_eq_square)
qed

lemma basis_up_y:
  fixes a b c s i :: real
  assumes n: "a * a + b * b + c * c = 1" and s: "s * s = a * a + c * c" and i: "i * s = 1"
  defines "t \<equiv> Vec3 (c * i) 0 (- (a * i))"
  shows "dot t t = 1" "dot (cross (Vec3 a b c) t) (cross (Vec3 a b c) t) = 1"
    "dot t (Vec3 a b c) = 0" "dot (cross (Vec3 a b c) t) (Vec3 a b c) = 0"
    "dot t (cross (Vec3 a b c) t) = 0"
proof -
  show "dot t t = 1" unfolding t_def using s i by (simp; algebra)
  show "dot (cross (Vec3 a b c) t) (cross (Vec3 a b c) t) = 1"
    unfolding t_def using n s i by (simp; algebra)
  show "dot t (Vec3 a b c) = 0" unfolding t_def by (simp; algebra)
  show "dot (cross (Vec3 a b c) t) (Vec3 a b c) = 0" unfolding t_def by (simp; algebra)
  show "dot t (cross (Vec3 a b c) t) = 0" unfolding t_def by (simp; algebra)
qed

lemma basis_up_x:
  fixes a b c s i :: real
  assumes n: "a * a + b * b + c * c = 1" and s: "s * s = b * b + c * c" and i: "i * s = 1"
  defines "t \<equiv> Vec3 0 (- (c * i)) (b * i)"
  shows "dot t t = 1" "dot (cross (Vec3 a b c) t) (cross (Vec3 a b c) t) = 1"
    "dot t (Vec3 a b c) = 0" "dot (cross (Vec3 a b c) t) (Vec3 a b c) = 0"
    "dot t (cross (Vec3 a b c) t) = 0"
proof -
  show "dot t t = 1" unfolding t_def using s i by (simp; algebra)
  show "dot (cross (Vec3 a b c) t) (cross (Vec3 a b c) t) = 1"
    unfolding t_def using n s i by (simp; algebra)
  show "dot t (Vec3 a b c) = 0" unfolding t_def by (simp; algebra)
  show "dot (cross (Vec3 a b c) t) (Vec3 a b c) = 0" unfolding t_def by (simp; algebra)
  show "dot t (cross (Vec3 a b c) t) = 0" unfolding t_def by (simp; algebra)
qed

lemma normalize3_inverse:
  assumes "0 < dot v v"
  shows "normalize3 v = Some (vscale (inverse (sqrt (dot v v))) v)"
  using assms by (cases v) (simp add: normalize3_def length3_def divide_inverse mult.commute)

text \<open>
  Claim C10.  For every unit vector \<open>n\<close>, \<^verbatim>\<open>basisFromDir(n)\<close> (up = world-Y unless
  \<open>|n.y| \<ge> 0.999\<close>, else world-X; \<open>t = normalize(cross(up, n))\<close>, \<open>b = cross(n, t)\<close>)
  returns \<open>t\<close> and \<open>b\<close> with \<open>|t| = |b| = 1\<close> and \<open>t\<cdot>n = b\<cdot>n = t\<cdot>b = 0\<close>, over exact
  real arithmetic.  In particular the \<^verbatim>\<open>normalize\<close> is defined.
\<close>

theorem basisFromDir_orthonormal:
  assumes "unit3 n"
  shows "\<exists>t b. basisFromDir n = Some (t, b)
           \<and> dot t t = 1 \<and> dot b b = 1 \<and> dot t n = 0 \<and> dot b n = 0 \<and> dot t b = 0"
proof (cases n)
  case (Vec3 a b c)
  have n1: "a * a + b * b + c * c = 1" using assms Vec3 by (simp add: unit3_def)
  show ?thesis
  proof (cases "\<bar>b\<bar> < 0.999")
    case True
    define s where "s = sqrt (dot (Vec3 c 0 (- a)) (Vec3 c 0 (- a)))"
    define i where "i = inverse s"
    define t where "t = Vec3 (c * i) 0 (- (a * i))"
    have pos: "0 < dot (Vec3 c 0 (- a)) (Vec3 c 0 (- a))"
      using abs_small_square[OF True] n1 by simp
    then have s0: "0 < s" by (simp add: s_def)
    have ss: "s * s = a * a + c * c" using pos by (simp add: s_def)
    have isone: "i * s = 1" using s0 by (simp add: i_def)
    have "normalize3 (cross (Vec3 0 1 0) n) = Some t"
      using normalize3_inverse[OF pos] by (simp add: Vec3 t_def i_def s_def mult.commute)
    then have bf: "basisFromDir n = Some (t, cross n t)"
      using True Vec3 by (simp add: basisFromDir_def)
    have "basisFromDir n = Some (t, cross n t) \<and> dot t t = 1
        \<and> dot (cross n t) (cross n t) = 1 \<and> dot t n = 0 \<and> dot (cross n t) n = 0
        \<and> dot t (cross n t) = 0"
      using bf basis_up_y[OF n1 ss isone] unfolding Vec3 t_def by simp
    then show ?thesis by blast
  next
    case False
    define s where "s = sqrt (dot (Vec3 0 (- c) b) (Vec3 0 (- c) b))"
    define i where "i = inverse s"
    define t where "t = Vec3 0 (- (c * i)) (b * i)"
    have "0 < b * b + c * c"
      using abs_large_square[OF False] by (intro add_pos_nonneg) auto
    then have pos: "0 < dot (Vec3 0 (- c) b) (Vec3 0 (- c) b)" by (simp add: add.commute)
    then have s0: "0 < s" by (simp add: s_def)
    have ss: "s * s = b * b + c * c" using pos by (simp add: s_def)
    have isone: "i * s = 1" using s0 by (simp add: i_def)
    have "normalize3 (cross (Vec3 1 0 0) n) = Some t"
      using normalize3_inverse[OF pos] by (simp add: Vec3 t_def i_def s_def mult.commute)
    then have bf: "basisFromDir n = Some (t, cross n t)"
      using False Vec3 by (simp add: basisFromDir_def)
    have "basisFromDir n = Some (t, cross n t) \<and> dot t t = 1
        \<and> dot (cross n t) (cross n t) = 1 \<and> dot t n = 0 \<and> dot (cross n t) n = 0
        \<and> dot t (cross n t) = 0"
      using bf basis_up_x[OF n1 ss isone] unfolding Vec3 t_def by simp
    then show ?thesis by blast
  qed
qed

theorem basisFromDir_orthonormal_witness:
  "unit3 (Vec3 0 0 1) \<and> basisFromDir (Vec3 0 0 1) = Some (Vec3 1 0 0, Vec3 0 1 0)
   \<and> (\<exists>t b. basisFromDir (Vec3 0 0 1) = Some (t, b)
         \<and> dot t t = 1 \<and> dot b b = 1 \<and> dot t (Vec3 0 0 1) = 0 \<and> dot b (Vec3 0 0 1) = 0
         \<and> dot t b = 0)"
proof -
  have u: "unit3 (Vec3 0 0 1)" by (simp add: unit3_def)
  have e: "basisFromDir (Vec3 0 0 1) = Some (Vec3 1 0 0, Vec3 0 1 0)"
    by (simp add: basisFromDir_def normalize3_def length3_def)
  show ?thesis using u e basisFromDir_orthonormal[OF u] by simp
qed

section \<open>Shadow mapping with PCF\<close>

lemma pcf_loop_y_sum:
  "pcf_loop_y su pxy ts cd bias x y shadow
     = shadow + (\<Sum>j = y..2. pcf_tap su pxy ts cd bias x j)"
proof (induction su pxy ts cd bias x y shadow rule: pcf_loop_y.induct)
  case (1 su pxy ts cd bias x y shadow)
  show ?case
  proof (cases "y \<le> 2")
    case True
    have "{y..2} = insert y {y + 1..2}" using True by auto
    then have "(\<Sum>j = y..2. pcf_tap su pxy ts cd bias x j)
        = pcf_tap su pxy ts cd bias x y + (\<Sum>j = y + 1..2. pcf_tap su pxy ts cd bias x j)"
      by simp
    then show ?thesis
      using "1.IH"[OF True] True by (subst pcf_loop_y.simps) simp
  next
    case False
    then show ?thesis by (subst pcf_loop_y.simps) simp
  qed
qed

lemma pcf_loop_x_sum:
  "pcf_loop_x su pxy ts cd bias x shadow
     = shadow + (\<Sum>i = x..2. \<Sum>j = - 2..2. pcf_tap su pxy ts cd bias i j)"
proof (induction su pxy ts cd bias x shadow rule: pcf_loop_x.induct)
  case (1 su pxy ts cd bias x shadow)
  show ?case
  proof (cases "x \<le> 2")
    case True
    have "{x..2} = insert x {x + 1..2}" using True by auto
    then have "(\<Sum>i = x..2. \<Sum>j = - 2..2. pcf_tap su pxy ts cd bias i j)
        = (\<Sum>j = - 2..2. pcf_tap su pxy ts cd bias x j)
          + (\<Sum>i = x + 1..2. \<Sum>j = - 2..2. pcf_tap su pxy ts cd bias i j)"
      by simp
    then show ?thesis
      using "1.IH"[OF True] True by (subst pcf_loop_x.simps) (simp add: pcf_loop_y_sum)
  next
    case False
    then show ?thesis by (subst pcf_loop_x.simps) simp
  qed
qed




text \<open>
  Claim C5.  For every light-space position whose projected coordinates (perspective
  divide, then the remap to \<open>[0,1]\<close>) fall outside \<open>[0,1]\<close> in \<open>x\<close> or in \<open>y\<close>, or have
  \<open>z > 1\<close>, \<^verbatim>\<open>calculateShadow\<close> returns exactly 1, whatever the depth map, \<open>N\<close>, \<open>L\<close>
  and the bias are.
\<close>

theorem calculateShadow_outside_lit:
  assumes "projCoords_of lightSpacePos = Some p"
    and "vz p > 1 \<or> vx p < 0 \<or> vx p > 1 \<or> vy p < 0 \<or> vy p > 1"
  shows "calculateShadow su lightSpacePos N L = Some 1"
  using assms by (simp add: calculateShadow_def)

theorem calculateShadow_outside_lit_witness:
  "projCoords_of (Vec4 2 0 0 1) = Some (Vec3 (3/2) (1/2) (1/2))
   \<and> vx (Vec3 (3/2) (1/2) (1/2)) > 1
   \<and> calculateShadow \<lparr>uShadowMap = (\<lambda>uv. 0), shadowMapSize = (2048, 2048),
          uShadowEnabled = 1, uShadowBias = 0.005\<rparr>
        (Vec4 2 0 0 1) (Vec3 0 0 1) (Vec3 0 0 1) = Some 1"
proof -
  have p: "projCoords_of (Vec4 2 0 0 1) = Some (Vec3 (3/2) (1/2) (1/2))"
    by (simp add: projCoords_of_def vec3_of_def)
  have o: "vz (Vec3 (3/2) (1/2) (1/2)) > 1 \<or> vx (Vec3 (3/2) (1/2) (1/2)) < 0
      \<or> vx (Vec3 (3/2) (1/2) (1/2)) > 1 \<or> vy (Vec3 (3/2) (1/2) (1/2)) < 0
      \<or> vy (Vec3 (3/2) (1/2) (1/2)) > 1"
    by simp
  show ?thesis using p calculateShadow_outside_lit[OF p o] by simp
qed




section \<open>The direct-lighting BRDF\<close>

lemma pcf_tap_range: "0 \<le> pcf_tap su pxy ts cd bias x y \<and> pcf_tap su pxy ts cd bias x y \<le> 1"
  by (simp add: pcf_tap_def Let_def)

lemma pcf_loop_x_range:
  "0 \<le> pcf_loop_x su pxy ts cd bias (- 2) 0 \<and> pcf_loop_x su pxy ts cd bias (- 2) 0 \<le> 25"
proof -
  let ?f = "pcf_tap su pxy ts cd bias"
  have lo: "0 \<le> (\<Sum>x = - 2..2::int. \<Sum>y = - 2..2::int. ?f x y)"
    by (intro sum_nonneg) (simp add: pcf_tap_range)
  have "(\<Sum>x = - 2..2::int. \<Sum>y = - 2..2::int. ?f x y)
      \<le> (\<Sum>x = - 2..2::int. \<Sum>y = - 2..2::int. 1)"
    by (intro sum_mono) (simp add: pcf_tap_range)
  then have hi: "(\<Sum>x = - 2..2::int. \<Sum>y = - 2..2::int. ?f x y) \<le> 25" by simp
  show ?thesis using lo hi by (simp add: pcf_loop_x_sum)
qed

lemma calculateShadow_range:
  assumes "calculateShadow su lightSpacePos N L = Some s"
  shows "0 \<le> s \<and> s \<le> 1"
proof (cases "uShadowEnabled su = 0")
  case True
  then show ?thesis using assms by (simp add: calculateShadow_def)
next
  case False
  then obtain p where p: "projCoords_of lightSpacePos = Some p"
    using assms by (cases "projCoords_of lightSpacePos") (simp_all add: calculateShadow_def)
  show ?thesis
  proof (cases "vz p > 1 \<or> vx p < 0 \<or> vx p > 1 \<or> vy p < 0 \<or> vy p > 1")
    case True
    then show ?thesis using assms False p by (simp add: calculateShadow_def)
  next
    case inb: False
    obtain tx where tx: "fdiv 1 (real_of_int (fst (shadowMapSize su))) = Some tx"
      using assms False p inb
      by (cases "fdiv 1 (real_of_int (fst (shadowMapSize su)))")
         (simp_all add: calculateShadow_def)
    obtain ty where ty: "fdiv 1 (real_of_int (snd (shadowMapSize su))) = Some ty"
      using assms False p inb tx
      by (cases "fdiv 1 (real_of_int (snd (shadowMapSize su)))")
         (simp_all add: calculateShadow_def)
    have "s = pcf_loop_x su (vx p, vy p) (tx, ty) (vz p) (shadow_bias su N L) (- 2) 0 / 25"
      using assms False p inb tx ty by (simp add: calculateShadow_def Let_def)
    then show ?thesis
      using pcf_loop_x_range[of su "(vx p, vy p)" "(tx, ty)" "vz p" "shadow_bias su N L"]
      by simp
  qed
qed

lemma evaluateBRDF_nonneg:
  assumes vm: "valid_material m" and rad: "nonneg3 radiance"
  shows "\<exists>c. evaluateBRDF m H0 N V L radiance = Some c \<and> nonneg3 c
            \<and> (dot N L \<le> 0 \<longrightarrow> c = vec3_of 0)"
proof -
  have alb: "in01_3 (uAlbedo m)" and met: "in01 (uMetallic m)"
    and ro: "0 \<le> uRoughness m" "uRoughness m \<le> 1"
    using vm by (simp_all add: valid_material_def in01_def)
  define H where "H = half_vector H0 V L"
  define F0 where "F0 = mix (vec3_of 0.04) (uAlbedo m) (uMetallic m)"
  define NdotL where "NdotL = clamp (dot N L) 0 1"
  define NdotV where "NdotV = clamp (dot N V) 0 1"
  define NdotH where "NdotH = clamp (dot N H) 0 1"
  define VdotH where "VdotH = clamp (dot V H) 0 1"
  define denom where "denom = max 0.001 (4 * NdotV * NdotL)"
  have nl: "0 \<le> NdotL" and nv: "0 \<le> NdotV"
    using clamp01 by (simp_all add: NdotL_def NdotV_def in01_def)
  obtain D where D: "D_GGX NdotH (brdf_alpha m) = Some D" "0 \<le> D"
    using D_GGX_Some by blast
  obtain G where G: "brdf_G m NdotV NdotL = Some G" "0 \<le> G"
    using brdf_G_nonneg[OF ro nv nl] by blast
  obtain F where F: "fresnelSchlick VdotH F0 = Some F" "in01_3 F"
    using fresnelSchlick_in01[OF _ F0_in01[OF alb met]] clamp01 unfolding VdotH_def F0_def
    by blast
  have dpos: "0 < denom" by (simp add: denom_def less_max_iff_disj)
  have "nonneg3 (vscale (D * G) F)"
    using D(2) G(2) F(2) by (intro nonneg3_vscale in01_3_nonneg) simp_all
  then obtain sp where sp: "vdivs (vscale (D * G) F) denom = Some sp" "nonneg3 sp"
    using nonneg3_vdivs[OF dpos] by blast
  have "nonneg3 (vmul (diffuse_kD m F) (uAlbedo m))"
    using kD_nonneg[OF met F(2)] in01_3_nonneg[OF alb] by (rule nonneg3_vmul)
  then obtain df where df: "vdivs (vmul (diffuse_kD m F) (uAlbedo m)) 3.14159265 = Some df"
    "nonneg3 df"
    using nonneg3_vdivs[of "3.14159265"] by force
  have ev: "evaluateBRDF m H0 N V L radiance
      = Some (vscale NdotL (vmul (vadd df sp) radiance))"
    unfolding evaluateBRDF_def
    using D(1) G(1) F(1) sp(1) df(1)
    unfolding NdotL_def NdotV_def NdotH_def VdotH_def F0_def denom_def H_def
    by (simp add: Let_def)
  have nn: "nonneg3 (vscale NdotL (vmul (vadd df sp) radiance))"
    using nl sp(2) df(2) rad by (intro nonneg3_vscale nonneg3_vmul nonneg3_vadd)
  have z: "dot N L \<le> 0 \<longrightarrow> vscale NdotL (vmul (vadd df sp) radiance) = vec3_of 0"
    by (simp add: NdotL_def clamp01_zero vscale_zero)
  show ?thesis using ev nn z by simp
qed

lemma main_Lo_nonneg:
  assumes vm: "valid_material m" and rad: "nonneg3 radiance" and s0: "0 \<le> shadow"
  shows "\<exists>c. main_Lo m H0 N V L radiance shadow = Some c \<and> nonneg3 c
            \<and> (dot N L \<le> 0 \<longrightarrow> c = vec3_of 0)"
proof -
  have alb: "in01_3 (uAlbedo m)" and met: "in01 (uMetallic m)"
    and ro: "0 \<le> uRoughness m" "uRoughness m \<le> 1"
    using vm by (simp_all add: valid_material_def in01_def)
  define H where "H = half_vector H0 V L"
  define F0 where "F0 = mix (vec3_of 0.04) (uAlbedo m) (uMetallic m)"
  define NdotL where "NdotL = max (dot N L) 0"
  define NdotV where "NdotV = max (dot N V) 0"
  define denom where "denom = 4 * NdotV * NdotL + 0.0001"
  have nl: "0 \<le> NdotL" and nv: "0 \<le> NdotV" by (simp_all add: NdotL_def NdotV_def)
  obtain D where D: "distributionGGX N H (uRoughness m) = Some D" "0 \<le> D"
    using distributionGGX_Some by blast
  obtain G where G: "geometrySmith N V L (uRoughness m) = Some G" "0 \<le> G"
    using geometrySmith_nonneg[OF ro] by blast
  obtain F where F: "fresnelSchlick2 (max (dot H V) 0) F0 = Some F" "in01_3 F"
    using fresnelSchlick2_in01[OF F0_in01[OF alb met]] unfolding F0_def by blast
  have "0 \<le> 4 * NdotV * NdotL" using nl nv by (intro mult_nonneg_nonneg) auto
  then have dpos: "0 < denom" unfolding denom_def by (rule add_nonneg_pos) simp
  have "nonneg3 (vscale (D * G) F)"
    using D(2) G(2) F(2) by (intro nonneg3_vscale in01_3_nonneg) simp_all
  then obtain sp where sp: "vdivs (vscale (D * G) F) denom = Some sp" "nonneg3 sp"
    using nonneg3_vdivs[OF dpos] by blast
  have "nonneg3 (vmul (diffuse_kD m F) (uAlbedo m))"
    using kD_nonneg[OF met F(2)] in01_3_nonneg[OF alb] by (rule nonneg3_vmul)
  then obtain df where df: "vdivs (vmul (diffuse_kD m F) (uAlbedo m)) PI = Some df"
    "nonneg3 df"
    using nonneg3_vdivs[of PI] by (force simp: PI_def)
  have ev: "main_Lo m H0 N V L radiance shadow
      = Some (vscale shadow (vscale NdotL (vmul (vadd df sp) radiance)))"
    unfolding main_Lo_def
    using D(1) G(1) F(1) sp(1) df(1)
    unfolding NdotL_def NdotV_def F0_def denom_def H_def
    by (simp add: Let_def)
  have nn: "nonneg3 (vscale shadow (vscale NdotL (vmul (vadd df sp) radiance)))"
    using nl s0 sp(2) df(2) rad by (intro nonneg3_vscale nonneg3_vmul nonneg3_vadd)
  have "dot N L \<le> 0 \<longrightarrow> NdotL = 0" by (simp add: NdotL_def)
  then have z: "dot N L \<le> 0 \<longrightarrow>
      vscale shadow (vscale NdotL (vmul (vadd df sp) radiance)) = vec3_of 0"
    by (cases "vmul (vadd df sp) radiance") (auto simp: vec3_of_def)
  show ?thesis using ev nn z by simp
qed

text \<open>
  Claim C1.  For all unit \<open>N\<close>, \<open>V\<close>, \<open>L\<close>, in-range material and non-negative radiance
  the direct-lighting evaluation (\<^verbatim>\<open>evaluateBRDF\<close> in the main path; the \<^verbatim>\<open>Lo\<close> of the
  second shader, with the shadow factor that \<^verbatim>\<open>calculateShadow\<close> returned) is finite and
  non-negative in every channel, and exactly zero when \<open>N\<cdot>L \<le> 0\<close>.  The vectors need not
  be unit vectors for this, and it holds whatever \<^verbatim>\<open>normalize\<close> yields for the half
  vector when \<open>V = - L\<close>.
\<close>

theorem direct_lighting_finite_nonneg:
  assumes vm: "valid_material m" and rad: "nonneg3 radiance"
    and sh: "calculateShadow su lightSpacePos N L = Some shadow"
  shows "(\<exists>c. evaluateBRDF m H0 N V L radiance = Some c \<and> nonneg3 c
            \<and> (dot N L \<le> 0 \<longrightarrow> c = vec3_of 0))
    \<and> (\<exists>c. main_Lo m H0 N V L radiance shadow = Some c \<and> nonneg3 c
            \<and> (dot N L \<le> 0 \<longrightarrow> c = vec3_of 0))"
proof -
  have s0: "0 \<le> shadow" using calculateShadow_range[OF sh] by simp
  show ?thesis
    using evaluateBRDF_nonneg[OF vm rad, of H0 N V L]
      main_Lo_nonneg[OF vm rad s0, of H0 N V L]
    by blast
qed

theorem direct_lighting_finite_nonneg_witness:
  "valid_material \<lparr>uAlbedo = Vec3 1 1 1, uMetallic = 0, uRoughness = 1/2\<rparr>
   \<and> nonneg3 (Vec3 1 1 1)
   \<and> calculateShadow \<lparr>uShadowMap = (\<lambda>uv. 0), shadowMapSize = (2048, 2048),
          uShadowEnabled = 1, uShadowBias = 0.005\<rparr>
        (Vec4 2 0 0 1) (Vec3 0 0 1) (Vec3 0 0 (- 1)) = Some 1
   \<and> normalize3 (vadd (Vec3 0 0 1) (Vec3 0 0 (- 1))) = None
   \<and> evaluateBRDF \<lparr>uAlbedo = Vec3 1 1 1, uMetallic = 0, uRoughness = 1/2\<rparr> (Vec3 1 0 0)
        (Vec3 0 0 1) (Vec3 0 0 1) (Vec3 0 0 (- 1)) (Vec3 1 1 1) = Some (vec3_of 0)
   \<and> main_Lo \<lparr>uAlbedo = Vec3 1 1 1, uMetallic = 0, uRoughness = 1/2\<rparr> (Vec3 1 0 0)
        (Vec3 0 0 1) (Vec3 0 0 1) (Vec3 0 0 (- 1)) (Vec3 1 1 1) 1 = Some (vec3_of 0)"
proof -
  let ?m = "\<lparr>uAlbedo = Vec3 1 1 1, uMetallic = 0, uRoughness = 1/2\<rparr>"
  let ?su = "\<lparr>uShadowMap = (\<lambda>uv. 0::real), shadowMapSize = (2048, 2048),
          uShadowEnabled = 1, uShadowBias = 0.005\<rparr>"
  have vm: "valid_material ?m" by (simp add: valid_material_def in01_3_def in01_def)
  have rad: "nonneg3 (Vec3 1 1 1)" by (simp add: nonneg3_def)
  have sh: "calculateShadow ?su (Vec4 2 0 0 1) (Vec3 0 0 1) (Vec3 0 0 (- 1)) = Some 1"
    by (simp add: calculateShadow_def projCoords_of_def vec3_of_def)
  have nz: "normalize3 (vadd (Vec3 0 0 1) (Vec3 0 0 (- 1))) = None"
    by (simp add: normalize3_None)
  have d: "dot (Vec3 0 0 1) (Vec3 0 0 (- 1)) \<le> 0" by simp
  show ?thesis
    using vm rad sh nz d
      direct_lighting_finite_nonneg[OF vm rad sh, of "Vec3 1 0 0" "Vec3 0 0 1"]
    by auto
qed

section \<open>The cone of the spot light\<close>



lemma hermite_deriv:
  "((\<lambda>t. hermite_cubic t) has_real_derivative 6 * t * (1 - t)) (at t)"
  unfolding hermite_cubic_def
  by (auto intro!: derivative_eq_intros simp: algebra_simps power2_eq_square)











section \<open>The area light\<close>




lemma vsum_Nil: "vsum [] = vec3_of 0"
  by (simp add: vsum_def)

lemma vsum_Cons: "vsum (c # cs) = vadd c (vsum cs)"
  by (simp add: vsum_def)










lemma vsum_const: "vsum (map (\<lambda>_. c) xs) = vscale (real (length xs)) c"
  by (induction xs) (cases c; simp add: vsum_Nil vsum_Cons vec3_of_def algebra_simps)+

lemma length_area_grid: "length area_grid = 64"
  by (simp add: area_grid_def length_concat comp_def sum_list_triv)









end
